theory Spec2Isabelle
  imports Complex_Main
begin

section \<open>Python string operations used by the Filename Decoder\<close>

text \<open>
  Python strings are modelled as \<^typ>\<open>string\<close>. All file names, vocabulary words and
  method tokens of the repository are ASCII, so a character of the model is a character
  of the program. None of the operations below can raise on a \<open>str\<close>.
\<close>

text \<open>\<open>s.startswith(p)\<close>\<close>

fun startswith :: "string \<Rightarrow> string \<Rightarrow> bool" where
  "startswith s [] = True"
| "startswith [] (p # ps) = False"
| "startswith (c # cs) (p # ps) = (c = p \<and> startswith cs ps)"

text \<open>\<open>sub in s\<close>: some suffix of \<open>s\<close> starts with \<open>sub\<close>.\<close>

fun str_contains :: "string \<Rightarrow> string \<Rightarrow> bool" where
  "str_contains sub [] = (sub = [])"
| "str_contains sub (c # cs) = (startswith (c # cs) sub \<or> str_contains sub cs)"

text \<open>\<open>s.replace(old, new, 1)\<close>: the leftmost occurrence of \<open>old\<close> is replaced.\<close>

fun py_replace1 :: "string \<Rightarrow> string \<Rightarrow> string \<Rightarrow> string" where
  "py_replace1 old new [] = (if old = [] then new else [])"
| "py_replace1 old new (c # cs) =
     (if startswith (c # cs) old then new @ drop (length old) (c # cs)
      else c # py_replace1 old new cs)"

text \<open>
  \<open>s.replace(old, new)\<close>: every occurrence of \<open>old\<close> is replaced, scanning from the left
  and continuing after each replaced occurrence. For an empty \<open>old\<close> Python puts \<open>new\<close>
  before every character and at the end.
\<close>

function py_replace :: "string \<Rightarrow> string \<Rightarrow> string \<Rightarrow> string" where
  "py_replace old new [] = (if old = [] then new else [])"
| "py_replace old new (c # cs) =
     (if old = [] then new @ c # py_replace old new cs
      else if startswith (c # cs) old
        then new @ py_replace old new (drop (length old) (c # cs))
      else c # py_replace old new cs)"
  by pat_completeness auto
termination
  by (relation "measure (\<lambda>(old, new, s). length s)") auto

text \<open>\<open>s.lstrip(chars)\<close>, \<open>s.rstrip(chars)\<close> and \<open>s.strip(chars)\<close>.\<close>

definition lstrip :: "string \<Rightarrow> string \<Rightarrow> string" where
  "lstrip chars s = dropWhile (\<lambda>c. c \<in> set chars) s"

definition rstrip :: "string \<Rightarrow> string \<Rightarrow> string" where
  "rstrip chars s = rev (dropWhile (\<lambda>c. c \<in> set chars) (rev s))"

definition strip :: "string \<Rightarrow> string \<Rightarrow> string" where
  "strip chars s = rstrip chars (lstrip chars s)"

text \<open>
  \<open>sorted(xs, key=len, reverse=True)\<close>. Python's sort is stable, and with
  \<open>reverse=True\<close> it stays stable: the list is reversed, sorted and reversed again, so
  words of equal length keep their original order. \<^const>\<open>sort_key\<close> is stable too.
\<close>

definition sorted_len_desc :: "string list \<Rightarrow> string list" where
  "sorted_len_desc xs = rev (sort_key length (rev xs))"

section \<open>The Filename Decoder (\<open>make_table.py\<close>)\<close>

definition model_prefixes :: "string list" where
  "model_prefixes =
     [''DeepSeek-R1'', ''DeepSeek-V3'', ''Llama-3.3-70B-Instruct-Turbo'',
      ''QwQ-32B-Preview'', ''QwQ-32B'', ''claude-3-5-haiku'', ''claude-3-5-sonnet'',
      ''gpt-35-turbo'', ''gpt-4'', ''gpt-4o'', ''gpt-4o-mini'', ''o1-mini'', ''o3-mini'']"

definition datasets :: "string list" where
  "datasets =
     [''medqa'', ''medbullets'', ''mmlu'', ''pubmedqa'', ''medexqa'', ''medmcqa'',
      ''medxpertqa-r'', ''medxpertqa-u'', ''mmlu-pro'']"

definition splits :: "string list" where
  "splits = [''test_hard'', ''test'']"

text \<open>
  The three loops of \<open>parse_filename\<close>. Each returns the first candidate that matches,
  with the remaining string after the candidate is taken out, or \<open>None\<close> when the loop
  ends without a \<open>break\<close>.
\<close>

definition model_stage :: "string \<Rightarrow> (string \<times> string) option" where
  "model_stage filename =
     (case find (\<lambda>prefix. startswith filename prefix) (sorted_len_desc model_prefixes) of
        None \<Rightarrow> None
      | Some prefix \<Rightarrow> Some (prefix, lstrip ''-'' (drop (length prefix) filename)))"

definition dataset_stage :: "string \<Rightarrow> (string \<times> string) option" where
  "dataset_stage remaining =
     (case find (\<lambda>ds. str_contains ds remaining) (sorted_len_desc datasets) of
        None \<Rightarrow> None
      | Some ds \<Rightarrow> Some (ds, strip ''-'' (py_replace1 ds [] remaining)))"

definition split_stage :: "string \<Rightarrow> (string \<times> string) option" where
  "split_stage remaining =
     (case find (\<lambda>s. str_contains s remaining) splits of
        None \<Rightarrow> None
      | Some s \<Rightarrow> Some (s, strip ''-'' (py_replace1 s [] remaining)))"

type_synonym file_identity = "string option \<times> string option \<times> string option \<times> string option"

definition undecodable :: file_identity where
  "undecodable = (None, None, None, None)"

text \<open>
  \<open>parse_filename\<close>. The tests \<open>if not model\<close>, \<open>if not dataset\<close> and \<open>if not split\<close> are
  true for \<open>None\<close> and for the empty string.
\<close>

definition parse_filename :: "string \<Rightarrow> file_identity" where
  "parse_filename fname =
     (let filename = py_replace ''.json'' [] fname in
      case model_stage filename of
        None \<Rightarrow> undecodable
      | Some (model, remaining) \<Rightarrow>
          if model = [] then undecodable
          else
            (case dataset_stage remaining of
               None \<Rightarrow> undecodable
             | Some (dataset, remaining) \<Rightarrow>
                 if dataset = [] then undecodable
                 else
                   (case split_stage remaining of
                      None \<Rightarrow> undecodable
                    | Some (split, remaining) \<Rightarrow>
                        if split = [] then undecodable
                        else
                          (let method = (if remaining \<noteq> [] then remaining else ''zero_shot'')
                           in (Some model, Some dataset, Some split, Some method)))))"

text \<open>\<open>parse_method\<close>: the chain of comparisons, in the order of the source.\<close>

definition parse_method :: "string \<Rightarrow> string" where
  "parse_method method =
     (if method = ''zero_shot'' then ''Zero-shot''
      else if method = ''cot_sc-5'' then ''CoT-SC''
      else if method = ''aflow'' then ''AFlow''
      else if method = ''mdagents'' then ''MDAgents''
      else if method = ''few_shot'' then ''Few-shot''
      else if method = ''medagents'' then ''MedAgents''
      else if method = ''self_refine-3'' then ''Self-refine''
      else if method = ''medprompt-3'' then ''MedPrompt''
      else if method = ''multipersona-2'' then ''MultiPersona''
      else if method = ''cot'' then ''CoT''
      else if method = ''spo'' then ''SPO''
      else method)"

text \<open>The raw method tokens that \<open>parse_method\<close> compares against.\<close>

definition method_keys :: "string list" where
  "method_keys =
     [''zero_shot'', ''cot_sc-5'', ''aflow'', ''mdagents'', ''few_shot'', ''medagents'',
      ''self_refine-3'', ''medprompt-3'', ''multipersona-2'', ''cot'', ''spo'']"

section \<open>The Record Extractor (\<open>utils.py\<close>)\<close>

text \<open>
  A result file is a JSON list of objects. An object is modelled as a record with one
  field for each key the code touches; a field is \<open>None\<close> when the object has no such
  key, so that \<open>item[key]\<close> can raise \<open>KeyError\<close>, \<open>key in item\<close> can be false and
  \<open>item.get(key)\<close> can give Python's \<open>None\<close>.

  The values of \<open>realidx\<close>, \<open>answer_idx\<close>, \<open>answer\<close> and \<open>predicted_answer\<close> are JSON
  \<open>null\<close>, strings or integers; on these, Python's \<open>==\<close> is structural equality.
  Costs, prices and times are modelled as real numbers: the rounding of Python's
  floats is not modelled.
\<close>

datatype pyval = PNone | PStr string | PInt int

datatype py_error = KeyError string | ZeroDivisionError

record usage =
  prompt_tokens :: "int option"
  completion_tokens :: "int option"

record result_record =
  realidx :: "pyval option"
  answer_idx :: "pyval option"
  answer :: "pyval option"
  predicted_answer :: "pyval option"
  time_elapsed :: "real option"
  cost :: "real option"
  token_usage :: "usage option"

subsection \<open>\<open>deduplicate_data\<close>\<close>

text \<open>The loop, with its two variables \<open>seen\<close> and \<open>deduplicated_data\<close>.\<close>

fun dedup_loop ::
  "result_record list \<Rightarrow> pyval set \<Rightarrow> result_record list \<Rightarrow> py_error + result_record list"
where
  "dedup_loop [] seen deduplicated_data = Inr deduplicated_data"
| "dedup_loop (item # rest) seen deduplicated_data =
     (case realidx item of
        None \<Rightarrow> Inl (KeyError ''realidx'')
      | Some idx \<Rightarrow>
          if idx \<notin> seen
          then dedup_loop rest (insert idx seen) (deduplicated_data @ [item])
          else dedup_loop rest seen deduplicated_data)"

definition deduplicate_data :: "result_record list \<Rightarrow> py_error + result_record list" where
  "deduplicate_data data = dedup_loop data {} []"

subsection \<open>\<open>calculate_cost_from_token_usage\<close>\<close>

text \<open>
  The right-hand side shared by the priced branches:
  \<open>item['token_usage']['prompt_tokens'] * price_in / 1000000 +
   item['token_usage']['completion_tokens'] * price_out / 1000000\<close>.
\<close>

definition token_cost :: "result_record \<Rightarrow> real \<Rightarrow> real \<Rightarrow> py_error + real" where
  "token_cost item price_in price_out =
     (case token_usage item of
        None \<Rightarrow> Inl (KeyError ''token_usage'')
      | Some tu \<Rightarrow>
          (case prompt_tokens tu of
             None \<Rightarrow> Inl (KeyError ''prompt_tokens'')
           | Some p \<Rightarrow>
               (case completion_tokens tu of
                  None \<Rightarrow> Inl (KeyError ''completion_tokens'')
                | Some c \<Rightarrow>
                    Inr (real_of_int p * price_in / 1000000
                         + real_of_int c * price_out / 1000000))))"

text \<open>\<open>total_cost += x\<close>, where computing \<open>x\<close> may raise.\<close>

definition add_to :: "real \<Rightarrow> py_error + real \<Rightarrow> py_error + real" where
  "add_to total_cost x = (case x of Inl e \<Rightarrow> Inl e | Inr v \<Rightarrow> Inr (total_cost + v))"

text \<open>
  The body of the loop: the new value of \<open>total_cost\<close>. When no branch of the chain
  applies, \<open>total_cost\<close> is left as it is.
\<close>

definition cost_step :: "real \<Rightarrow> result_record \<Rightarrow> string \<Rightarrow> py_error + real" where
  "cost_step total_cost item model =
     (case cost item of
        Some c \<Rightarrow> Inr (total_cost + c)
      | None \<Rightarrow>
          if model = ''gpt-4o-mini'' then add_to total_cost (token_cost item 0.15 0.6)
          else if model = ''gpt-4o'' then add_to total_cost (token_cost item 2.5 10)
          else if model = ''o3-mini'' \<or> model = ''o1-mini''
            then add_to total_cost (token_cost item 1.1 4.4)
          else if model = ''claude-3-5-sonnet''
            then add_to total_cost (token_cost item 3.0 15.0)
          else if model = ''claude-3-5-haiku''
            then add_to total_cost (token_cost item 0.8 4.0)
          else if model = ''QwQ-32B-Preview''
            then add_to total_cost (token_cost item 1.2 1.2)
          else if model = ''DeepSeek-R1'' then add_to total_cost (token_cost item 7 7)
          else if model = ''DeepSeek-V3''
            then add_to total_cost (token_cost item 1.25 1.25)
          else if model = ''Llama-3.3-70B-Instruct-Turbo''
            then add_to total_cost (token_cost item 0.88 0.88)
          else Inr total_cost)"

fun cost_loop :: "result_record list \<Rightarrow> string \<Rightarrow> real \<Rightarrow> py_error + real" where
  "cost_loop [] model total_cost = Inr total_cost"
| "cost_loop (item # rest) model total_cost =
     (case cost_step total_cost item model of
        Inl e \<Rightarrow> Inl e
      | Inr total_cost' \<Rightarrow> cost_loop rest model total_cost')"

definition calculate_cost_from_token_usage ::
  "result_record list \<Rightarrow> string \<Rightarrow> py_error + real"
where
  "calculate_cost_from_token_usage data model =
     (case cost_loop data model 0 of
        Inl e \<Rightarrow> Inl e
      | Inr total_cost \<Rightarrow>
          Inr (if length data > 0 then total_cost / real (length data) else 0))"

subsection \<open>\<open>calculate_time_from_data\<close>\<close>

fun time_loop :: "result_record list \<Rightarrow> real \<Rightarrow> py_error + real" where
  "time_loop [] total_time = Inr total_time"
| "time_loop (item # rest) total_time =
     (case time_elapsed item of
        None \<Rightarrow> Inl (KeyError ''time_elapsed'')
      | Some t \<Rightarrow> time_loop rest (total_time + t))"

text \<open>The division has no guard: an empty list raises \<open>ZeroDivisionError\<close>.\<close>

definition calculate_time_from_data :: "result_record list \<Rightarrow> py_error + real" where
  "calculate_time_from_data data =
     (case time_loop data 0 of
        Inl e \<Rightarrow> Inl e
      | Inr total_time \<Rightarrow>
          if length data = 0 then Inl ZeroDivisionError
          else Inr (total_time / real (length data)))"

subsection \<open>\<open>get_score_from_file\<close>\<close>

text \<open>Python truthiness, \<open>item.get(key)\<close> and \<open>x or y\<close>.\<close>

fun truthy :: "pyval \<Rightarrow> bool" where
  "truthy PNone = False"
| "truthy (PStr s) = (s \<noteq> [])"
| "truthy (PInt i) = (i \<noteq> 0)"

definition dict_get :: "pyval option \<Rightarrow> pyval" where
  "dict_get field = (case field of None \<Rightarrow> PNone | Some v \<Rightarrow> v)"

definition py_or :: "pyval \<Rightarrow> pyval \<Rightarrow> pyval" where
  "py_or x y = (if truthy x then x else y)"

text \<open>\<open>gt = item.get('answer_idx') or item.get('answer')\<close>\<close>

definition ground_truth :: "result_record \<Rightarrow> pyval" where
  "ground_truth item = py_or (dict_get (answer_idx item)) (dict_get (answer item))"

fun answers_loop :: "result_record list \<Rightarrow> bool list \<Rightarrow> py_error + bool list" where
  "answers_loop [] answers = Inr answers"
| "answers_loop (item # rest) answers =
     (let gt = ground_truth item in
      case predicted_answer item of
        None \<Rightarrow> Inl (KeyError ''predicted_answer'')
      | Some pred \<Rightarrow> answers_loop rest (answers @ [gt = pred]))"

text \<open>
  \<open>np.mean\<close> of a list of booleans: the fraction of \<open>True\<close>. On the empty list numpy
  gives \<open>nan\<close> (with a warning) and does not raise.
\<close>

datatype npfloat = NaN | Fin real

definition np_mean :: "bool list \<Rightarrow> npfloat" where
  "np_mean answers =
     (if answers = [] then NaN
      else Fin (real (length (filter (\<lambda>b. b) answers)) / real (length answers)))"

fun np_times :: "npfloat \<Rightarrow> real \<Rightarrow> npfloat" where
  "np_times NaN k = NaN"
| "np_times (Fin x) k = Fin (x * k)"

text \<open>
  \<open>get_score_from_file\<close>, given the list read from the file. The steps run in the
  order of the source, and the first error ends the call.
\<close>

definition get_score_from_file ::
  "result_record list \<Rightarrow> string \<Rightarrow> py_error + (npfloat \<times> nat \<times> real \<times> real)"
where
  "get_score_from_file data model_name =
     (case deduplicate_data data of
        Inl e \<Rightarrow> Inl e
      | Inr dedup \<Rightarrow>
          (case answers_loop dedup [] of
             Inl e \<Rightarrow> Inl e
           | Inr answers \<Rightarrow>
               (let acc = np_times (np_mean answers) 100 in
                case calculate_cost_from_token_usage dedup model_name of
                  Inl e \<Rightarrow> Inl e
                | Inr avg_cost \<Rightarrow>
                    (case calculate_time_from_data dedup of
                       Inl e \<Rightarrow> Inl e
                     | Inr avg_time \<Rightarrow> Inr (acc, length dedup, avg_cost, avg_time)))))"

section \<open>Descriptions used in the statements\<close>

text \<open>
  The models and prices of the chain in \<open>calculate_cost_from_token_usage\<close>, collected
  in a table: model, price of a million prompt tokens, price of a million completion
  tokens. This is the cost table of the specification.
\<close>

definition price_table :: "(string \<times> real \<times> real) list" where
  "price_table =
     [(''gpt-4o-mini'', 0.15, 0.6), (''gpt-4o'', 2.5, 10), (''o3-mini'', 1.1, 4.4),
      (''o1-mini'', 1.1, 4.4), (''claude-3-5-sonnet'', 3.0, 15.0),
      (''claude-3-5-haiku'', 0.8, 4.0), (''QwQ-32B-Preview'', 1.2, 1.2),
      (''DeepSeek-R1'', 7, 7), (''DeepSeek-V3'', 1.25, 1.25),
      (''Llama-3.3-70B-Instruct-Turbo'', 0.88, 0.88)]"

text \<open>
  The ground truth as the specification words it: \<open>answer_idx\<close> when it is present and
  truthy, otherwise whatever \<open>answer\<close> holds (Python's \<open>None\<close> when that key is absent).
\<close>

definition fallthrough_ground_truth :: "result_record \<Rightarrow> pyval" where
  "fallthrough_ground_truth item =
     (case answer_idx item of
        Some v \<Rightarrow> if truthy v then v else dict_get (answer item)
      | None \<Rightarrow> dict_get (answer item))"

text \<open>
  The record at position \<open>i\<close> is a first occurrence: no earlier record has its
  \<open>realidx\<close>.
\<close>

definition keeps_first :: "result_record list \<Rightarrow> nat \<Rightarrow> bool" where
  "keeps_first data i = (realidx (data ! i) \<notin> set (map realidx (take i data)))"

subsection \<open>Example records\<close>

text \<open>
  Two questions answered with token counts and no cost, the first with an empty
  \<open>answer_idx\<close>; a rerun of the first question; and a record whose explicit cost
  disagrees with its token counts.
\<close>

definition rec_q1 :: result_record where
  "rec_q1 =
     \<lparr>realidx = Some (PInt 1), answer_idx = Some (PStr []), answer = Some (PStr ''B''),
      predicted_answer = Some (PStr ''B''), time_elapsed = Some 1,
      cost = None,
      token_usage = Some \<lparr>prompt_tokens = Some 100, completion_tokens = Some 50\<rparr>\<rparr>"

definition rec_q2 :: result_record where
  "rec_q2 =
     \<lparr>realidx = Some (PInt 2), answer_idx = Some (PStr ''C''), answer = None,
      predicted_answer = Some (PStr ''A''), time_elapsed = Some 3,
      cost = None,
      token_usage = Some \<lparr>prompt_tokens = Some 100, completion_tokens = Some 50\<rparr>\<rparr>"

definition rec_q1_rerun :: result_record where
  "rec_q1_rerun =
     \<lparr>realidx = Some (PInt 1), answer_idx = Some (PStr ''B''), answer = None,
      predicted_answer = Some (PStr ''D''), time_elapsed = Some 9,
      cost = None,
      token_usage = Some \<lparr>prompt_tokens = Some 700, completion_tokens = Some 900\<rparr>\<rparr>"

definition rec_with_cost :: result_record where
  "rec_with_cost =
     \<lparr>realidx = Some (PStr ''q7''), answer_idx = Some (PStr ''A''), answer = None,
      predicted_answer = Some (PStr ''A''), time_elapsed = Some 4,
      cost = Some (1 / 2),
      token_usage = Some \<lparr>prompt_tokens = Some 100, completion_tokens = Some 50\<rparr>\<rparr>"

section \<open>Properties of the Filename Decoder\<close>

subsection \<open>The candidate orders\<close>

lemma sorted_models:
  "sorted_len_desc model_prefixes =
     [''Llama-3.3-70B-Instruct-Turbo'', ''claude-3-5-sonnet'', ''claude-3-5-haiku'',
      ''QwQ-32B-Preview'', ''gpt-35-turbo'', ''DeepSeek-R1'', ''DeepSeek-V3'',
      ''gpt-4o-mini'', ''QwQ-32B'', ''o1-mini'', ''o3-mini'', ''gpt-4o'', ''gpt-4'']"
  by (simp add: sorted_len_desc_def model_prefixes_def)

lemma sorted_datasets:
  "sorted_len_desc datasets =
     [''medxpertqa-r'', ''medxpertqa-u'', ''medbullets'', ''pubmedqa'', ''mmlu-pro'',
      ''medexqa'', ''medmcqa'', ''medqa'', ''mmlu'']"
  by (simp add: sorted_len_desc_def datasets_def)

lemma set_sorted_len_desc: "set (sorted_len_desc xs) = set xs"
  by (simp add: sorted_len_desc_def)

lemma find_None_set: "find P xs = None \<longleftrightarrow> (\<forall>x\<in>set xs. \<not> P x)"
  by (induction xs) auto

lemma vocab_nonempty:
  "[] \<notin> set model_prefixes" "[] \<notin> set datasets" "[] \<notin> set splits" "[] \<notin> set method_keys"
  by (simp_all add: model_prefixes_def datasets_def splits_def method_keys_def)

subsection \<open>Decoding a well-formed file name\<close>

text \<open>
  Removing \<open>.json\<close>: a string without a dot is copied, and so is every model name
  (the dots of the Llama model are not followed by \<open>json\<close>).
\<close>

lemma py_replace_json_no_dot:
  "CHR ''.'' \<notin> set xs \<Longrightarrow> py_replace ''.json'' [] (xs @ ys) = xs @ py_replace ''.json'' [] ys"
  by (induction xs) auto

lemma py_replace_json_models:
  "list_all (\<lambda>m. py_replace ''.json'' [] (m @ rest) = m @ py_replace ''.json'' [] rest)
     model_prefixes"
  by code_simp

lemma no_dot_vocab:
  "list_all (\<lambda>d. list_all (\<lambda>s. list_all (\<lambda>me.
      CHR ''.'' \<notin> set (''-'' @ d @ ''-'' @ s @ ''-'' @ me)) method_keys) splits) datasets"
  by code_simp

text \<open>
  Each stage on its part of a well-formed name, for all words of the vocabularies. The
  model stage is checked with the rest of the name left open; the other two stages by
  running them on the 198 and 22 strings.
\<close>

lemma model_stage_vocab_all:
  "list_all (\<lambda>m. list_all (\<lambda>d.
      model_stage (m @ ''-'' @ d @ rest) = Some (m, d @ rest)) datasets) model_prefixes"
  by code_simp

lemma dataset_stage_vocab_all:
  "list_all (\<lambda>d. list_all (\<lambda>s. list_all (\<lambda>me.
      dataset_stage (d @ ''-'' @ s @ ''-'' @ me) = Some (d, s @ ''-'' @ me))
        method_keys) splits) datasets"
  by code_simp

lemma split_stage_vocab_all:
  "list_all (\<lambda>s. list_all (\<lambda>me. split_stage (s @ ''-'' @ me) = Some (s, me)) method_keys)
     splits"
  by code_simp

text \<open>
  Claim C1. For every model, dataset and split of the fixed vocabularies and every raw
  method token known to \<open>parse_method\<close>, \<open>parse_filename\<close> applied to
  \<open><model>-<dataset>-<split>-<method>.json\<close> returns exactly these four components.
\<close>

theorem parse_filename_roundtrip:
  assumes m: "m \<in> set model_prefixes" and d: "d \<in> set datasets"
    and s: "s \<in> set splits" and me: "me \<in> set method_keys"
  shows "parse_filename (m @ ''-'' @ d @ ''-'' @ s @ ''-'' @ me @ ''.json'')
           = (Some m, Some d, Some s, Some me)"
proof -
  let ?tail = "''-'' @ d @ ''-'' @ s @ ''-'' @ me"
  have nodot: "CHR ''.'' \<notin> set ?tail"
    using no_dot_vocab d s me unfolding list_all_iff by blast
  have "py_replace ''.json'' [] (m @ ?tail @ ''.json'')
          = m @ py_replace ''.json'' [] (?tail @ ''.json'')"
    using py_replace_json_models [of "?tail @ ''.json''"] m unfolding list_all_iff by blast
  also have "py_replace ''.json'' [] (?tail @ ''.json'')
          = ?tail @ py_replace ''.json'' [] ''.json''"
    using nodot by (rule py_replace_json_no_dot)
  also have "py_replace ''.json'' [] ''.json'' = []"
    by simp
  finally have stem:
    "py_replace ''.json'' [] (m @ ''-'' @ d @ ''-'' @ s @ ''-'' @ me @ ''.json'')
       = m @ ''-'' @ d @ ''-'' @ s @ ''-'' @ me"
    by simp
  have ms: "model_stage (m @ ''-'' @ d @ ''-'' @ s @ ''-'' @ me)
              = Some (m, d @ ''-'' @ s @ ''-'' @ me)"
    using model_stage_vocab_all [of "''-'' @ s @ ''-'' @ me"] m d
    unfolding list_all_iff by blast
  have ds: "dataset_stage (d @ ''-'' @ s @ ''-'' @ me) = Some (d, s @ ''-'' @ me)"
    using dataset_stage_vocab_all d s me unfolding list_all_iff by blast
  have ss: "split_stage (s @ ''-'' @ me) = Some (s, me)"
    using split_stage_vocab_all s me unfolding list_all_iff by blast
  have ne: "m \<noteq> []" "d \<noteq> []" "s \<noteq> []" "me \<noteq> []"
    using vocab_nonempty m d s me by auto
  show ?thesis
    unfolding parse_filename_def stem Let_def ms using ds ss ne by simp
qed

theorem parse_filename_roundtrip_witness:
  "parse_filename ''gpt-4o-mini-mmlu-pro-test_hard-cot_sc-5.json''
     = (Some ''gpt-4o-mini'', Some ''mmlu-pro'', Some ''test_hard'', Some ''cot_sc-5'')"
  using parse_filename_roundtrip
          [of "''gpt-4o-mini''" "''mmlu-pro''" "''test_hard''" "''cot_sc-5''"]
  by (simp add: model_prefixes_def datasets_def splits_def method_keys_def)

subsection \<open>The Method Name Normalizer\<close>

text \<open>
  Claim C9. On every raw method token that is not one of the keys it compares against,
  \<open>parse_method\<close> returns the token unchanged.
\<close>

theorem parse_method_identity_outside_keys:
  "method \<notin> set method_keys \<Longrightarrow> parse_method method = method"
  by (simp add: parse_method_def method_keys_def)

theorem parse_method_identity_outside_keys_witness:
  "''react'' \<notin> set method_keys \<and> parse_method ''react'' = ''react''"
proof -
  have h: "''react'' \<notin> set method_keys" by (simp add: method_keys_def)
  show ?thesis using h parse_method_identity_outside_keys [OF h] by simp
qed

subsection \<open>Longest match in the dataset stage\<close>

text \<open>
  Claim C5, as stated, says that a remainder containing \<open>mmlu-pro\<close> always resolves to
  \<open>mmlu-pro\<close>. The dataset loop tests containment anywhere in the remainder, and four
  candidates are tried before \<open>mmlu-pro\<close>: a remainder that also contains one of them
  resolves to that one.
\<close>

theorem dataset_stage_mmlu_pro_counterexample:
  "str_contains ''mmlu-pro'' ''mmlu-pro-medbullets-test''
   \<and> model_stage ''gpt-4o-mmlu-pro-medbullets-test''
        = Some (''gpt-4o'', ''mmlu-pro-medbullets-test'')
   \<and> dataset_stage ''mmlu-pro-medbullets-test'' = Some (''medbullets'', ''mmlu-pro--test'')
   \<and> parse_filename ''gpt-4o-mmlu-pro-medbullets-test.json''
        = (Some ''gpt-4o'', Some ''medbullets'', Some ''test'', Some ''mmlu-pro'')"
  by code_simp

text \<open>
  Claim C5, amended. When the remainder after the model contains \<open>mmlu-pro\<close>, the
  dataset stage finds a dataset, and it is never \<open>mmlu\<close>; it is \<open>mmlu-pro\<close> exactly when
  the remainder contains none of the candidates tried before it (\<open>medxpertqa-r\<close>,
  \<open>medxpertqa-u\<close>, \<open>medbullets\<close>, \<open>pubmedqa\<close>).
\<close>

theorem dataset_stage_mmlu_pro:
  assumes "str_contains ''mmlu-pro'' r"
  shows "\<exists>ds r'. dataset_stage r = Some (ds, r') \<and> ds \<noteq> ''mmlu'' \<and>
           (ds = ''mmlu-pro'' \<longleftrightarrow>
              \<not> (str_contains ''medxpertqa-r'' r \<or> str_contains ''medxpertqa-u'' r \<or>
                 str_contains ''medbullets'' r \<or> str_contains ''pubmedqa'' r))"
  using assms unfolding dataset_stage_def sorted_datasets by simp

theorem dataset_stage_mmlu_pro_witness:
  "str_contains ''mmlu-pro'' ''mmlu-pro-test_hard-cot''
   \<and> (\<exists>r'. dataset_stage ''mmlu-pro-test_hard-cot'' = Some (''mmlu-pro'', r'))"
proof -
  have h: "str_contains ''mmlu-pro'' ''mmlu-pro-test_hard-cot''" by code_simp
  have n: "\<not> (str_contains ''medxpertqa-r'' ''mmlu-pro-test_hard-cot'' \<or>
              str_contains ''medxpertqa-u'' ''mmlu-pro-test_hard-cot'' \<or>
              str_contains ''medbullets'' ''mmlu-pro-test_hard-cot'' \<or>
              str_contains ''pubmedqa'' ''mmlu-pro-test_hard-cot'')" by code_simp
  from dataset_stage_mmlu_pro [OF h] n h show ?thesis by blast
qed

subsection \<open>Undecodable file names\<close>

text \<open>
  Claim C7. When the model loop finds no prefix, or the dataset loop finds no dataset in
  the remainder left by the model stage, or the split loop finds no split in the
  remainder left by the dataset stage, \<open>parse_filename\<close> returns
  \<open>(None, None, None, None)\<close>. The function is total on strings and has no error
  result: none of its string operations can raise.
\<close>

theorem parse_filename_undecodable:
  assumes "filename = py_replace ''.json'' [] fname"
    and "(\<forall>prefix\<in>set model_prefixes. \<not> startswith filename prefix)
       \<or> (\<exists>model r. model_stage filename = Some (model, r)
             \<and> (\<forall>ds\<in>set datasets. \<not> str_contains ds r))
       \<or> (\<exists>model r dataset r'. model_stage filename = Some (model, r)
             \<and> dataset_stage r = Some (dataset, r')
             \<and> (\<forall>s\<in>set splits. \<not> str_contains s r'))"
  shows "parse_filename fname = (None, None, None, None)"
proof -
  consider
      (model) "\<forall>prefix\<in>set model_prefixes. \<not> startswith filename prefix"
    | (dataset) model r where "model_stage filename = Some (model, r)"
        "\<forall>ds\<in>set datasets. \<not> str_contains ds r"
    | (split) model r dataset r' where "model_stage filename = Some (model, r)"
        "dataset_stage r = Some (dataset, r')" "\<forall>s\<in>set splits. \<not> str_contains s r'"
    using assms(2) by blast
  then show ?thesis
  proof cases
    case model
    then have "find (\<lambda>prefix. startswith filename prefix) (sorted_len_desc model_prefixes) = None"
      by (simp add: find_None_set set_sorted_len_desc)
    then have "model_stage filename = None"
      by (simp add: model_stage_def)
    then show ?thesis
      using assms(1) by (simp add: parse_filename_def undecodable_def)
  next
    case dataset
    then have "find (\<lambda>ds. str_contains ds r) (sorted_len_desc datasets) = None"
      by (simp add: find_None_set set_sorted_len_desc)
    then have "dataset_stage r = None"
      by (simp add: dataset_stage_def)
    then show ?thesis
      using assms(1) dataset(1) by (simp add: parse_filename_def undecodable_def)
  next
    case split
    then have "find (\<lambda>s. str_contains s r') splits = None"
      by (simp add: find_None_set)
    then have "split_stage r' = None"
      by (simp add: split_stage_def)
    then show ?thesis
      using assms(1) split(1,2) by (simp add: parse_filename_def undecodable_def)
  qed
qed

theorem parse_filename_undecodable_witness:
  "parse_filename ''results.json'' = (None, None, None, None)
   \<and> parse_filename ''gpt-4o-summary.json'' = (None, None, None, None)
   \<and> parse_filename ''gpt-4o-medqa-cot.json'' = (None, None, None, None)"
proof -
  have a: "parse_filename ''results.json'' = (None, None, None, None)"
  proof (rule parse_filename_undecodable [where filename = "''results''"])
    show "''results'' = py_replace ''.json'' [] ''results.json''" by simp
    have "\<forall>prefix\<in>set model_prefixes. \<not> startswith ''results'' prefix"
      by (simp add: model_prefixes_def)
    then show "(\<forall>prefix\<in>set model_prefixes. \<not> startswith ''results'' prefix)
       \<or> (\<exists>model r. model_stage ''results'' = Some (model, r)
             \<and> (\<forall>ds\<in>set datasets. \<not> str_contains ds r))
       \<or> (\<exists>model r dataset r'. model_stage ''results'' = Some (model, r)
             \<and> dataset_stage r = Some (dataset, r')
             \<and> (\<forall>s\<in>set splits. \<not> str_contains s r'))" by blast
  qed
  have b: "parse_filename ''gpt-4o-summary.json'' = (None, None, None, None)"
  proof (rule parse_filename_undecodable [where filename = "''gpt-4o-summary''"])
    show "''gpt-4o-summary'' = py_replace ''.json'' [] ''gpt-4o-summary.json''" by simp
    have "model_stage ''gpt-4o-summary'' = Some (''gpt-4o'', ''summary'')" by code_simp
    moreover have "\<forall>ds\<in>set datasets. \<not> str_contains ds ''summary''"
      by (simp add: datasets_def)
    ultimately show "(\<forall>prefix\<in>set model_prefixes. \<not> startswith ''gpt-4o-summary'' prefix)
       \<or> (\<exists>model r. model_stage ''gpt-4o-summary'' = Some (model, r)
             \<and> (\<forall>ds\<in>set datasets. \<not> str_contains ds r))
       \<or> (\<exists>model r dataset r'. model_stage ''gpt-4o-summary'' = Some (model, r)
             \<and> dataset_stage r = Some (dataset, r')
             \<and> (\<forall>s\<in>set splits. \<not> str_contains s r'))" by blast
  qed
  have c: "parse_filename ''gpt-4o-medqa-cot.json'' = (None, None, None, None)"
  proof (rule parse_filename_undecodable [where filename = "''gpt-4o-medqa-cot''"])
    show "''gpt-4o-medqa-cot'' = py_replace ''.json'' [] ''gpt-4o-medqa-cot.json''" by simp
    have "model_stage ''gpt-4o-medqa-cot'' = Some (''gpt-4o'', ''medqa-cot'')" by code_simp
    moreover have "dataset_stage ''medqa-cot'' = Some (''medqa'', ''cot'')" by code_simp
    moreover have "\<forall>s\<in>set splits. \<not> str_contains s ''cot''"
      by (simp add: splits_def)
    ultimately show "(\<forall>prefix\<in>set model_prefixes. \<not> startswith ''gpt-4o-medqa-cot'' prefix)
       \<or> (\<exists>model r. model_stage ''gpt-4o-medqa-cot'' = Some (model, r)
             \<and> (\<forall>ds\<in>set datasets. \<not> str_contains ds r))
       \<or> (\<exists>model r dataset r'. model_stage ''gpt-4o-medqa-cot'' = Some (model, r)
             \<and> dataset_stage r = Some (dataset, r')
             \<and> (\<forall>s\<in>set splits. \<not> str_contains s r'))" by blast
  qed
  from a b c show ?thesis by simp
qed

section \<open>Properties of the Record Extractor\<close>

text \<open>Unfolding the extractor on concrete records.\<close>

lemmas extractor_defs =
  get_score_from_file_def deduplicate_data_def calculate_cost_from_token_usage_def
  calculate_time_from_data_def cost_step_def token_cost_def add_to_def np_mean_def
  ground_truth_def py_or_def dict_get_def

lemmas example_defs = rec_q1_def rec_q2_def rec_q1_rerun_def rec_with_cost_def

subsection \<open>Deduplication\<close>

lemma dedup_loop_first_occurrences:
  assumes "\<forall>item\<in>set xs. realidx item \<noteq> None"
  shows "dedup_loop xs seen acc =
           Inr (acc @ map (\<lambda>i. xs ! i)
                  (filter (\<lambda>i. the (realidx (xs ! i)) \<notin> seen \<and> keeps_first xs i) [0..<length xs]))"
  using assms
proof (induction xs arbitrary: seen acc)
  case Nil
  then show ?case by simp
next
  case (Cons x xs)
  from Cons.prems obtain idx where idx: "realidx x = Some idx" by auto
  have rest: "\<forall>item\<in>set xs. realidx item \<noteq> None" using Cons.prems by simp
  have upt: "[0..<length (x # xs)] = 0 # map Suc [0..<length xs]"
    by (simp add: upt_conv_Cons map_Suc_upt del: upt_Suc)
  have k0: "keeps_first (x # xs) 0" by (simp add: keeps_first_def)
  have kS: "\<And>i. keeps_first (x # xs) (Suc i)
              \<longleftrightarrow> realidx (xs ! i) \<noteq> realidx x \<and> keeps_first xs i"
    by (auto simp: keeps_first_def)
  have some: "\<And>i. i < length xs \<Longrightarrow> \<exists>v. realidx (xs ! i) = Some v"
    using rest by (metis nth_mem not_None_eq)
  show ?case
  proof (cases "idx \<in> seen")
    case True
    have "filter (\<lambda>i. the (realidx ((x # xs) ! i)) \<notin> seen \<and> keeps_first (x # xs) i)
            [0..<length (x # xs)]
          = map Suc (filter (\<lambda>i. the (realidx (xs ! i)) \<notin> seen \<and> keeps_first xs i)
              [0..<length xs])"
      unfolding upt using idx True some
      by (auto simp: filter_map comp_def kS intro!: filter_cong arg_cong [where f = "map Suc"])
    then show ?thesis
      using idx True Cons.IH [OF rest, of seen acc] by (simp add: comp_def del: upt_Suc)
  next
    case False
    have "filter (\<lambda>i. the (realidx ((x # xs) ! i)) \<notin> seen \<and> keeps_first (x # xs) i)
            [0..<length (x # xs)]
          = 0 # map Suc (filter (\<lambda>i. the (realidx (xs ! i)) \<notin> insert idx seen \<and> keeps_first xs i)
              [0..<length xs])"
      unfolding upt using idx False some k0
      by (auto simp: filter_map comp_def kS intro!: filter_cong arg_cong [where f = "map Suc"])
    then show ?thesis
      using idx False Cons.IH [OF rest, of "insert idx seen" "acc @ [x]"]
      by (simp add: comp_def del: upt_Suc)
  qed
qed

lemma dedup_loop_subset:
  "dedup_loop xs seen acc = Inr out \<Longrightarrow> set out \<subseteq> set acc \<union> set xs"
proof (induction xs arbitrary: seen acc)
  case Nil
  then show ?case by simp
next
  case (Cons x xs)
  then show ?case
    by (fastforce split: option.splits if_splits)
qed

text \<open>
  Claim C6. For every list of records (each with a \<open>realidx\<close>), \<open>deduplicate_data\<close>
  returns the records at exactly those positions where a \<open>realidx\<close> occurs for the first
  time, in the order of the input; every later record with a \<open>realidx\<close> already seen is
  dropped.
\<close>

theorem deduplicate_data_first_occurrences:
  assumes "\<forall>item\<in>set data. realidx item \<noteq> None"
  shows "deduplicate_data data =
           Inr (map (\<lambda>i. data ! i)
                  (filter (\<lambda>i. realidx (data ! i) \<notin> set (map realidx (take i data)))
                     [0..<length data]))"
  using dedup_loop_first_occurrences [OF assms, of "{}" "[]"]
  by (simp add: deduplicate_data_def keeps_first_def)

theorem deduplicate_data_first_occurrences_witness:
  "deduplicate_data [rec_q1, rec_q2, rec_q1_rerun] = Inr [rec_q1, rec_q2]"
proof -
  have h: "\<forall>item\<in>set [rec_q1, rec_q2, rec_q1_rerun]. realidx item \<noteq> None"
    by (simp add: example_defs)
  have "[0..<length [rec_q1, rec_q2, rec_q1_rerun]] = [0, 1, 2]"
    by (simp add: upt_rec)
  then show ?thesis
    using deduplicate_data_first_occurrences [OF h] by (simp add: example_defs)
qed

subsection \<open>The time average of an empty list\<close>

text \<open>
  Claim C2. On the empty list \<open>calculate_time_from_data\<close> raises
  \<open>ZeroDivisionError\<close>, and so does \<open>get_score_from_file\<close> on a file whose list is empty:
  deduplication, the accuracy (\<open>nan\<close>) and the guarded cost average all pass, and the
  time average divides by zero.
\<close>

theorem empty_time_average_fails:
  "calculate_time_from_data [] = Inl ZeroDivisionError
   \<and> get_score_from_file [] model_name = Inl ZeroDivisionError"
  by (simp add: calculate_time_from_data_def get_score_from_file_def deduplicate_data_def
        calculate_cost_from_token_usage_def)

subsection \<open>Cost\<close>

lemma cost_step_explicit:
  "cost item = Some c \<Longrightarrow> cost_step total_cost item model = Inr (total_cost + c)"
  by (simp add: cost_step_def)

lemma cost_step_price_table:
  "cost item = None \<Longrightarrow>
   cost_step total_cost item model =
     (case map_of price_table model of
        None \<Rightarrow> Inr total_cost
      | Some (price_in, price_out) \<Rightarrow> add_to total_cost (token_cost item price_in price_out))"
  by (simp add: cost_step_def price_table_def)

lemma cost_loop_explicit:
  "\<forall>item\<in>set xs. cost item \<noteq> None \<Longrightarrow>
   cost_loop xs model total_cost = Inr (total_cost + sum_list (map (\<lambda>item. the (cost item)) xs))"
proof (induction xs arbitrary: total_cost)
  case Nil
  then show ?case by simp
next
  case (Cons x xs)
  then obtain c where c: "cost x = Some c" by auto
  with Cons show ?case by (simp add: cost_step_explicit add.assoc)
qed

lemma cost_loop_unpriced:
  "map_of price_table model = None \<Longrightarrow> \<forall>item\<in>set xs. cost item = None \<Longrightarrow>
   cost_loop xs model total_cost = Inr total_cost"
  by (induction xs arbitrary: total_cost) (simp_all add: cost_step_price_table)

text \<open>
  Claim C4. A record with an explicit \<open>cost\<close> adds exactly that value to the total,
  whatever its \<open>token_usage\<close> is (present, absent or inconsistent with the cost); a list
  of such records averages their costs. Token prices are used only for a record without
  \<open>cost\<close>, where the step is the one given by the price table.
\<close>

theorem explicit_cost_used_verbatim:
  "(cost item = Some c \<longrightarrow>
      cost_step total_cost item model = Inr (total_cost + c) \<and>
      cost_step total_cost (item\<lparr>token_usage := tu\<rparr>) model = Inr (total_cost + c))
   \<and> (cost item = None \<longrightarrow>
      cost_step total_cost item model =
        (case map_of price_table model of
           None \<Rightarrow> Inr total_cost
         | Some (price_in, price_out) \<Rightarrow>
             add_to total_cost (token_cost item price_in price_out)))
   \<and> ((\<forall>item\<in>set data. cost item \<noteq> None) \<longrightarrow>
      calculate_cost_from_token_usage data model =
        Inr (if data = [] then 0
             else sum_list (map (\<lambda>item. the (cost item)) data) / real (length data)))"
proof (intro conjI impI)
  assume "cost item = Some c"
  then show "cost_step total_cost item model = Inr (total_cost + c)"
    by (rule cost_step_explicit)
next
  assume "cost item = Some c"
  then have "cost (item\<lparr>token_usage := tu\<rparr>) = Some c" by simp
  then show "cost_step total_cost (item\<lparr>token_usage := tu\<rparr>) model = Inr (total_cost + c)"
    by (rule cost_step_explicit)
next
  assume "cost item = None"
  then show "cost_step total_cost item model =
        (case map_of price_table model of
           None \<Rightarrow> Inr total_cost
         | Some (price_in, price_out) \<Rightarrow>
             add_to total_cost (token_cost item price_in price_out))"
    by (rule cost_step_price_table)
next
  assume "\<forall>item\<in>set data. cost item \<noteq> None"
  then show "calculate_cost_from_token_usage data model =
        Inr (if data = [] then 0
             else sum_list (map (\<lambda>item. the (cost item)) data) / real (length data))"
    by (simp add: calculate_cost_from_token_usage_def cost_loop_explicit)
qed

theorem explicit_cost_used_verbatim_witness:
  "cost_step 0 rec_with_cost ''gpt-4o'' = Inr (1 / 2)
   \<and> cost_step 0 (rec_with_cost\<lparr>token_usage := None\<rparr>) ''gpt-4o'' = Inr (1 / 2)
   \<and> cost_step 0 rec_q1 ''gpt-4o'' = Inr (3 / 4000)
   \<and> calculate_cost_from_token_usage [rec_with_cost, rec_with_cost\<lparr>cost := Some 1\<rparr>] ''gpt-4o''
       = Inr (3 / 4)"
proof -
  have a: "cost rec_with_cost = Some (1 / 2)" by (simp add: rec_with_cost_def)
  have b: "cost rec_q1 = None" by (simp add: rec_q1_def)
  have c: "\<forall>item\<in>set [rec_with_cost, rec_with_cost\<lparr>cost := Some 1\<rparr>]. cost item \<noteq> None"
    using a by (simp del: not_None_eq)
  have t: "token_cost rec_q1 2.5 10 = Inr (3 / 4000)"
    by (simp add: token_cost_def rec_q1_def)
  from explicit_cost_used_verbatim [of rec_with_cost "1 / 2" 0 "''gpt-4o''" None
      "[rec_with_cost, rec_with_cost\<lparr>cost := Some 1\<rparr>]"] a c
  have 1: "cost_step 0 rec_with_cost ''gpt-4o'' = Inr (1 / 2)"
    and 2: "cost_step 0 (rec_with_cost\<lparr>token_usage := None\<rparr>) ''gpt-4o'' = Inr (1 / 2)"
    and 4: "calculate_cost_from_token_usage [rec_with_cost, rec_with_cost\<lparr>cost := Some 1\<rparr>] ''gpt-4o''
       = Inr (3 / 4)"
    by (simp_all add: rec_with_cost_def)
  from explicit_cost_used_verbatim [of rec_q1 0 0 "''gpt-4o''" None "[]"] b t
  have 3: "cost_step 0 rec_q1 ''gpt-4o'' = Inr (3 / 4000)"
    by (simp add: price_table_def add_to_def)
  from 1 2 3 4 show ?thesis by simp
qed

text \<open>
  Claim C8. For a model that is not in the price table, a record without \<open>cost\<close> leaves
  the total unchanged and raises nothing (also when it has no \<open>token_usage\<close>), so a list
  of such records has average cost 0. The function has no other effect: it prints and
  logs nothing.
\<close>

theorem unpriced_model_contributes_zero:
  assumes "model \<notin> set (map fst price_table)"
  shows "(cost item = None \<longrightarrow> cost_step total_cost item model = Inr total_cost)
       \<and> ((\<forall>item\<in>set data. cost item = None) \<longrightarrow>
            calculate_cost_from_token_usage data model = Inr 0)"
proof -
  from assms have none: "map_of price_table model = None"
    by (simp add: map_of_eq_None_iff)
  show ?thesis
    using none by (simp add: cost_step_price_table calculate_cost_from_token_usage_def
        cost_loop_unpriced)
qed

theorem unpriced_model_contributes_zero_witness:
  "''gpt-4'' \<notin> set (map fst price_table)
   \<and> cost_step 0 rec_q1 ''gpt-4'' = Inr 0
   \<and> calculate_cost_from_token_usage [rec_q1, rec_q2\<lparr>token_usage := None\<rparr>] ''gpt-4'' = Inr 0"
proof -
  have h: "''gpt-4'' \<notin> set (map fst price_table)" by (simp add: price_table_def)
  have a: "cost rec_q1 = None" by (simp add: rec_q1_def)
  have b: "\<forall>item\<in>set [rec_q1, rec_q2\<lparr>token_usage := None\<rparr>]. cost item = None"
    by (simp add: rec_q1_def rec_q2_def)
  from unpriced_model_contributes_zero [OF h, of rec_q1 0 "[rec_q1, rec_q2\<lparr>token_usage := None\<rparr>]"]
    h a b show ?thesis by blast
qed

subsection \<open>Ground truth and accuracy\<close>

lemma ground_truth_fallthrough: "ground_truth item = fallthrough_ground_truth item"
  by (simp add: ground_truth_def fallthrough_ground_truth_def py_or_def dict_get_def
        split: option.splits)

lemma answers_loop_result:
  "answers_loop xs answers = Inr res \<Longrightarrow>
   res = answers @ map (\<lambda>item. predicted_answer item = Some (ground_truth item)) xs"
proof (induction xs arbitrary: answers)
  case Nil
  then show ?case by simp
next
  case (Cons x xs)
  from Cons.prems obtain pred where pred: "predicted_answer x = Some pred"
    and rest: "answers_loop xs (answers @ [ground_truth x = pred]) = Inr res"
    by (auto split: option.splits)
  have "(ground_truth x = pred) = (pred = ground_truth x)" by blast
  with Cons.IH [OF rest] pred show ?case by simp
qed

lemma np_mean_map:
  "xs \<noteq> [] \<Longrightarrow> np_mean (map P xs) = Fin (real (length (filter P xs)) / real (length xs))"
  by (simp add: np_mean_def filter_map comp_def)

text \<open>
  Claim C3. The ground truth of a record is \<open>answer_idx\<close> only when that key is present
  and truthy; a falsy \<open>answer_idx\<close> (such as the empty string) falls through to
  \<open>answer\<close>. This is the ground truth of the accuracy: whenever \<open>get_score_from_file\<close>
  returns, its accuracy is the percentage of deduplicated records whose prediction
  equals that ground truth.
\<close>

theorem accuracy_uses_fallthrough_ground_truth:
  "ground_truth item = fallthrough_ground_truth item
   \<and> (get_score_from_file data model_name = Inr (acc, n, avg_cost, avg_time) \<longrightarrow>
        (\<exists>dedup. deduplicate_data data = Inr dedup \<and> n = length dedup \<and>
           acc = Fin (real (length (filter
                   (\<lambda>item. predicted_answer item = Some (fallthrough_ground_truth item)) dedup))
                 / real (length dedup) * 100)))"
proof (intro conjI impI)
  show "ground_truth item = fallthrough_ground_truth item"
    by (rule ground_truth_fallthrough)
next
  assume score: "get_score_from_file data model_name = Inr (acc, n, avg_cost, avg_time)"
  then obtain dedup answers where dd: "deduplicate_data data = Inr dedup"
    and ans: "answers_loop dedup [] = Inr answers"
    and tm: "calculate_time_from_data dedup \<noteq> Inl ZeroDivisionError"
    and acc: "acc = np_times (np_mean answers) 100" and n: "n = length dedup"
    by (auto simp: get_score_from_file_def Let_def split: sum.splits)
  have ne: "dedup \<noteq> []"
    using tm by (auto simp: calculate_time_from_data_def)
  have "answers = map (\<lambda>item. predicted_answer item = Some (fallthrough_ground_truth item)) dedup"
    using answers_loop_result [OF ans] by (simp add: ground_truth_fallthrough)
  with ne acc have "acc = Fin (real (length (filter
                   (\<lambda>item. predicted_answer item = Some (fallthrough_ground_truth item)) dedup))
                 / real (length dedup) * 100)"
    by (simp add: np_mean_map)
  with dd n show "\<exists>dedup. deduplicate_data data = Inr dedup \<and> n = length dedup \<and>
           acc = Fin (real (length (filter
                   (\<lambda>item. predicted_answer item = Some (fallthrough_ground_truth item)) dedup))
                 / real (length dedup) * 100)"
    by blast
qed

theorem accuracy_uses_fallthrough_ground_truth_witness:
  "get_score_from_file [rec_q1, rec_q2, rec_q1_rerun] ''gpt-4o'' = Inr (Fin 50, 2, 3 / 4000, 2)
   \<and> ground_truth rec_q1 = PStr ''B''
   \<and> (\<exists>dedup. deduplicate_data [rec_q1, rec_q2, rec_q1_rerun] = Inr dedup \<and>
        Fin 50 = Fin (real (length (filter
                   (\<lambda>item. predicted_answer item = Some (fallthrough_ground_truth item)) dedup))
                 / real (length dedup) * 100))"
proof -
  have score: "get_score_from_file [rec_q1, rec_q2, rec_q1_rerun] ''gpt-4o''
                = Inr (Fin 50, 2, 3 / 4000, 2)"
    by (simp add: extractor_defs example_defs)
  have ft: "fallthrough_ground_truth rec_q1 = PStr ''B''"
    by (simp add: fallthrough_ground_truth_def rec_q1_def dict_get_def)
  from accuracy_uses_fallthrough_ground_truth
         [of rec_q1 "[rec_q1, rec_q2, rec_q1_rerun]" "''gpt-4o''" "Fin 50" 2 "3 / 4000" 2]
    score ft
  show ?thesis by auto
qed

subsection \<open>Independence of the model\<close>

lemma cost_loop_model_independent:
  "\<forall>item\<in>set xs. cost item \<noteq> None \<Longrightarrow> cost_loop xs m1 t = cost_loop xs m2 t"
  by (simp add: cost_loop_explicit)

text \<open>
  Claim C10. If every record of the input has an explicit \<open>cost\<close>, the result of
  \<open>get_score_from_file\<close> is the same for any two model names. (This holds for the empty
  list as well, where both calls raise the same error.)
\<close>

theorem score_independent_of_model:
  assumes "\<forall>item\<in>set data. cost item \<noteq> None"
  shows "get_score_from_file data model1 = get_score_from_file data model2"
proof (cases "deduplicate_data data")
  case (Inl e)
  then show ?thesis by (simp add: get_score_from_file_def)
next
  case (Inr dedup)
  then have "set dedup \<subseteq> set data"
    using dedup_loop_subset [of data "{}" "[]" dedup] by (simp add: deduplicate_data_def)
  with assms have "\<forall>item\<in>set dedup. cost item \<noteq> None" by blast
  then have "calculate_cost_from_token_usage dedup model1
               = calculate_cost_from_token_usage dedup model2"
    by (simp add: calculate_cost_from_token_usage_def cost_loop_explicit)
  with Inr show ?thesis
    by (simp add: get_score_from_file_def Let_def split: sum.splits)
qed


theorem score_independent_of_model_witness:
  "get_score_from_file [rec_with_cost] ''gpt-4o'' = get_score_from_file [rec_with_cost] ''gpt-4''
   \<and> get_score_from_file [rec_with_cost] ''gpt-4'' = Inr (Fin 100, 1, 1 / 2, 4)"
proof -
  have "cost rec_with_cost = Some (1 / 2)" by (simp add: rec_with_cost_def)
  then have h: "\<forall>item\<in>set [rec_with_cost]. cost item \<noteq> None"
    by (simp del: not_None_eq)
  have v: "get_score_from_file [rec_with_cost] ''gpt-4'' = Inr (Fin 100, 1, 1 / 2, 4)"
    by (simp add: extractor_defs rec_with_cost_def)
  from score_independent_of_model [OF h, of "''gpt-4o''" "''gpt-4''"] v show ?thesis by simp
qed

end
